theory Spec2Isabelle
  imports Complex_Main "HOL-Library.Word"
begin

section \<open>The popup controller (src/extension/src/popup/popup.js)\<close>

text \<open>
  \<^verbatim>\<open>STATES\<close> is the enumeration of the four interface states. A conversation entry is the
  object literal built in \<^verbatim>\<open>addChatMessage\<close>: \<^verbatim>\<open>{ text, sender, timestamp, element }\<close>. The
  sender is a JavaScript string (the code compares it with \<^verbatim>\<open>'user'\<close> and \<^verbatim>\<open>'bot'\<close>), the
  timestamp is the value of \<^verbatim>\<open>Date.now()\<close>, and \<^verbatim>\<open>element\<close> is \<^verbatim>\<open>null\<close> or a reference to a
  DOM node, modelled as the node's handle.
\<close>

datatype ui_state = IDLE | LISTENING | THINKING | RESPONDING

record messageEntry =
  "text" :: string
  sender :: string
  timestamp :: nat
  element :: "nat option"

text \<open>
  Calls that leave the controller are recorded in the order they happen: \<^verbatim>\<open>updateUI()\<close>
  (with the state it renders), \<^verbatim>\<open>alert(msg)\<close> and \<^verbatim>\<open>waveformVisualizer.stop()\<close>.
\<close>

datatype ui_effect = UpdateUI ui_state | Alert string | WaveformStop

text \<open>
  Callbacks handed to \<^verbatim>\<open>setTimeout\<close>. \<open>ReturnToIdle\<close> is \<^verbatim>\<open>() => this.setState(STATES.IDLE)\<close>;
  \<open>AddBubble text sender ref\<close> is the closure over \<^verbatim>\<open>messageEntry\<close> created in
  \<^verbatim>\<open>addChatMessage\<close>; \<open>Respond m\<close> is the part of \<^verbatim>\<open>processUserMessage\<close> behind its first
  \<^verbatim>\<open>await\<close>, closed over \<^verbatim>\<open>lastUserMessage\<close>. The history array is only ever pushed to, so
  the position of an entry identifies the object a closure refers to.
\<close>

datatype task = ReturnToIdle | AddBubble string string nat | Respond messageEntry

text \<open>
  The fields of \<^verbatim>\<open>PopupController\<close>. \<open>isProcessing\<close> is \<^verbatim>\<open>_isProcessing\<close>, which the
  constructor leaves undefined, that is, false. \<open>ui\<close> and \<open>timers\<close> hold the outside
  calls made so far and the timeouts set so far.
\<close>

record popup =
  currentState :: ui_state
  conversationHistory :: "messageEntry list"
  isProcessing :: bool
  ui :: "ui_effect list"
  timers :: "(nat \<times> task) list"

text \<open>What the DOM answers when \<^verbatim>\<open>addChatMessage\<close> asks for the button and the bubbles.\<close>

record dom =
  voiceButton :: bool
  existingBubbles :: nat

definition constructor :: popup where
  "constructor = \<lparr>currentState = IDLE, conversationHistory = [], isProcessing = False,
     ui = [], timers = []\<rparr>"

definition updateUI :: "popup \<Rightarrow> popup" where
  "updateUI s = s\<lparr>ui := ui s @ [UpdateUI (currentState s)]\<rparr>"

text \<open>The \<^verbatim>\<open>switch\<close> of \<^verbatim>\<open>handleStateChange\<close> has one case with an empty body.\<close>

definition handleStateChange :: "ui_state \<Rightarrow> ui_state \<Rightarrow> popup \<Rightarrow> popup" where
  "handleStateChange oldState newState s = (case oldState of LISTENING \<Rightarrow> s | _ \<Rightarrow> s)"

definition setState :: "ui_state \<Rightarrow> popup \<Rightarrow> popup" where
  "setState newState s =
     (if currentState s = newState then s
      else let oldState = currentState s;
               s1 = s\<lparr>currentState := newState\<rparr>;
               s2 = updateUI s1
           in handleStateChange oldState newState s2)"

definition MAX_BUBBLES :: nat where
  "MAX_BUBBLES = 3"

text \<open>
  \<^verbatim>\<open>addChatMessage\<close> pushes the entry first. Without a voice button it returns there;
  otherwise it schedules \<^verbatim>\<open>_addBubbleToPosition\<close> after 350 ms or 50 ms. The statements
  between the two only style and remove bubbles and pause the layout monitor.
\<close>

definition addChatMessage :: "dom \<Rightarrow> nat \<Rightarrow> string \<Rightarrow> string \<Rightarrow> popup \<Rightarrow> popup" where
  "addChatMessage d now txt sndr s =
     (let messageEntry = \<lparr>text = txt, sender = sndr, timestamp = now, element = None\<rparr>;
          ref = length (conversationHistory s);
          s1 = s\<lparr>conversationHistory := conversationHistory s @ [messageEntry]\<rparr>
      in if \<not> voiceButton d then s1
         else s1\<lparr>timers := timers s1 @
                [(if existingBubbles d \<ge> MAX_BUBBLES then 350 else 50, AddBubble txt sndr ref)]\<rparr>)"

text \<open>
  \<^verbatim>\<open>_addBubbleToPosition\<close> builds the bubble node and, last, stores it in the entry it was
  given. With no entry it does nothing to the history: the \<^verbatim>\<open>push\<close> of the \<^verbatim>\<open>else\<close> branch
  stands behind \<^verbatim>\<open>//\<close> on the comment line, so the branch is empty.
\<close>

definition addBubbleToPosition ::
  "nat \<Rightarrow> string \<Rightarrow> string \<Rightarrow> nat option \<Rightarrow> popup \<Rightarrow> popup" where
  "addBubbleToPosition messageBubble txt sndr messageEntry s =
     (case messageEntry of
        Some ref \<Rightarrow>
          s\<lparr>conversationHistory :=
              (conversationHistory s)[ref := (conversationHistory s ! ref)\<lparr>element := Some messageBubble\<rparr>]\<rparr>
      | None \<Rightarrow> s)"

text \<open>
  The backwards loop of \<^verbatim>\<open>processUserMessage\<close>: \<open>lastUserBelow h n\<close> inspects the indices
  \<open>n - 1, \<dots>, 0\<close> and stops at the first entry sent by the user. Every entry is a distinct
  object, so \<^verbatim>\<open>indexOf(lastUserMessage)\<close> is the index the loop stopped at.
\<close>

fun lastUserBelow :: "messageEntry list \<Rightarrow> nat \<Rightarrow> nat option" where
  "lastUserBelow h 0 = None"
| "lastUserBelow h (Suc i) =
     (if sender (h ! i) = ''user'' then Some i else lastUserBelow h i)"

definition lastUserIndex :: "messageEntry list \<Rightarrow> nat option" where
  "lastUserIndex h = lastUserBelow h (length h)"

definition hasResponse :: "messageEntry list \<Rightarrow> nat \<Rightarrow> bool" where
  "hasResponse h userMessageIndex =
     list_ex (\<lambda>msg. sender msg = ''bot'') (drop (userMessageIndex + 1) h)"

definition getAgentResponse :: "string \<Rightarrow> string" where
  "getAgentResponse userMessage =
     ''I understand you said: '' @ [CHR 0x22] @ userMessage @ [CHR 0x22] @
     ''. This is a placeholder response. Integrate your agent API here.''"

text \<open>
  \<^verbatim>\<open>processUserMessage\<close> is an \<^verbatim>\<open>async\<close> function. Its first part runs with the call, up to
  \<^verbatim>\<open>await new Promise(resolve => setTimeout(resolve, 1500))\<close>; the early returns reset the
  flag themselves and again in \<^verbatim>\<open>finally\<close>. Where the first part suspends it returns the
  \<^verbatim>\<open>lastUserMessage\<close> its continuation holds. The second part runs when the timer resolves,
  on whatever the state is by then. The agent is a parameter that may fail, which is the
  \<^verbatim>\<open>catch\<close> branch; the code's own agent is \<open>getAgentResponse\<close> and never fails.
\<close>

definition processUserMessage_enter :: "popup \<Rightarrow> popup \<times> messageEntry option" where
  "processUserMessage_enter s =
     (if isProcessing s then (s, None)
      else let s1 = s\<lparr>isProcessing := True\<rparr> in
        (case lastUserIndex (conversationHistory s1) of
           None \<Rightarrow> ((setState IDLE s1)\<lparr>isProcessing := False\<rparr>, None)
         | Some i \<Rightarrow>
             if hasResponse (conversationHistory s1) i
             then ((setState IDLE s1)\<lparr>isProcessing := False\<rparr>, None)
             else (s1, Some (conversationHistory s1 ! i))))"

definition processUserMessage_resume ::
  "(string \<Rightarrow> string + string) \<Rightarrow> dom \<Rightarrow> nat \<Rightarrow> messageEntry \<Rightarrow> popup \<Rightarrow> popup" where
  "processUserMessage_resume agent d now lastUserMessage s =
     (case agent (text lastUserMessage) of
        Inr response \<Rightarrow>
          (let s1 = addChatMessage d now response ''bot'' s;
               s2 = setState RESPONDING s1
           in s2\<lparr>timers := timers s2 @ [(2000, ReturnToIdle)]\<rparr>)
      | Inl err \<Rightarrow> setState IDLE s)\<lparr>isProcessing := False\<rparr>"

text \<open>
  One call that nothing interleaves with: the first part and, if it got as far as the
  \<^verbatim>\<open>await\<close>, the second part on the state the first one left.
\<close>

definition processUserMessage_with ::
  "(string \<Rightarrow> string + string) \<Rightarrow> dom \<Rightarrow> nat \<Rightarrow> popup \<Rightarrow> popup" where
  "processUserMessage_with agent d now s =
     (case processUserMessage_enter s of
        (s1, None) \<Rightarrow> s1
      | (s1, Some lastUserMessage) \<Rightarrow> processUserMessage_resume agent d now lastUserMessage s1)"

definition processUserMessage :: "dom \<Rightarrow> nat \<Rightarrow> popup \<Rightarrow> popup" where
  "processUserMessage = processUserMessage_with (\<lambda>m. Inr (getAgentResponse m))"

text \<open>
  A call whose result nobody awaits, as in the transcription callback: the first part runs
  and the continuation, if any, is left on the timer list.
\<close>

definition processUserMessage_start :: "popup \<Rightarrow> popup" where
  "processUserMessage_start s =
     (case processUserMessage_enter s of
        (s1, None) \<Rightarrow> s1
      | (s1, Some lastUserMessage) \<Rightarrow> s1\<lparr>timers := timers s1 @ [(1500, Respond lastUserMessage)]\<rparr>)"

text \<open>
  The two callbacks that \<^verbatim>\<open>init\<close> registers with the speech service. A state notification
  is \<^verbatim>\<open>{ state, message, timestamp }\<close>; \<open>js_or\<close> is \<^verbatim>\<open>x || fallback\<close> on a string that may be
  \<^verbatim>\<open>null\<close>, \<^verbatim>\<open>undefined\<close> or empty.
\<close>

record stateData =
  sd_state :: string
  sd_message :: "string option"
  sd_timestamp :: nat

definition js_or :: "string option \<Rightarrow> string \<Rightarrow> string" where
  "js_or x fallback = (case x of None \<Rightarrow> fallback | Some v \<Rightarrow> if v = [] then fallback else v)"

definition alert :: "string \<Rightarrow> popup \<Rightarrow> popup" where
  "alert msg s = s\<lparr>ui := ui s @ [Alert msg]\<rparr>"

definition waveformVisualizer_stop :: "popup \<Rightarrow> popup" where
  "waveformVisualizer_stop s = s\<lparr>ui := ui s @ [WaveformStop]\<rparr>"

definition onStateChange_handler :: "stateData \<Rightarrow> popup \<Rightarrow> popup" where
  "onStateChange_handler stateData s =
     (if sd_state stateData = ''recording'' then setState LISTENING s
      else if sd_state stateData = ''processing'' then setState THINKING (waveformVisualizer_stop s)
      else if sd_state stateData = ''completed'' then s
      else if sd_state stateData = ''error'' then
        waveformVisualizer_stop (setState IDLE
          (alert (js_or (sd_message stateData) ''An error occurred during speech recognition.'') s))
      else s)"

definition onTranscription_handler :: "dom \<Rightarrow> nat \<Rightarrow> string \<Rightarrow> popup \<Rightarrow> popup" where
  "onTranscription_handler d now transcription_text s =
     processUserMessage_start (addChatMessage d now transcription_text ''user'' s)"

text \<open>Running a timer callback; \<open>node\<close> is the bubble element a callback may create.\<close>

fun run_task ::
  "(string \<Rightarrow> string + string) \<Rightarrow> dom \<Rightarrow> nat \<Rightarrow> nat \<Rightarrow> task \<Rightarrow> popup \<Rightarrow> popup" where
  "run_task agent d now node ReturnToIdle s = setState IDLE s"
| "run_task agent d now node (AddBubble txt sndr ref) s =
     addBubbleToPosition node txt sndr (Some ref) s"
| "run_task agent d now node (Respond lastUserMessage) s =
     processUserMessage_resume agent d now lastUserMessage s"

text \<open>
  Everything that can be asked of the controller: its methods, the two callbacks and the
  timer callbacks. A run is a list of such calls, each finished before the next begins.
\<close>

datatype call =
    SetState ui_state
  | AddChatMessage dom nat string string
  | AddBubbleToPosition nat string string "nat option"
  | ProcessUserMessage
  | StateChange stateData
  | Transcription dom nat string
  | Timer "string \<Rightarrow> string + string" dom nat nat task

fun perform :: "call \<Rightarrow> popup \<Rightarrow> popup" where
  "perform (SetState newState) s = setState newState s"
| "perform (AddChatMessage d now txt sndr) s = addChatMessage d now txt sndr s"
| "perform (AddBubbleToPosition node txt sndr messageEntry) s =
     addBubbleToPosition node txt sndr messageEntry s"
| "perform ProcessUserMessage s = processUserMessage_start s"
| "perform (StateChange stateData) s = onStateChange_handler stateData s"
| "perform (Transcription d now txt) s = onTranscription_handler d now txt s"
| "perform (Timer agent d now node t) s = run_task agent d now node t s"

fun run :: "call list \<Rightarrow> popup \<Rightarrow> popup" where
  "run [] s = s"
| "run (c # cs) s = run cs (perform c s)"


section \<open>The widget controller (src/unnamed/part_000)\<close>

text \<open>
  \<^verbatim>\<open>WidgetController\<close> keeps its own state and history. Its \<^verbatim>\<open>handleStateChange\<close> stops the
  waveform when \<^verbatim>\<open>LISTENING\<close> is left and starts \<^verbatim>\<open>processUserMessage\<close> when \<^verbatim>\<open>THINKING\<close> is
  entered; that call reads the last history entry (\<^verbatim>\<open>undefined\<close> on an empty history) and
  suspends on a 1500 ms timer.
\<close>

datatype widget_effect = W_UpdateUI ui_state | W_WaveformStop

record widget =
  w_currentState :: ui_state
  w_conversationHistory :: "messageEntry list"
  w_ui :: "widget_effect list"
  w_timers :: "(nat \<times> messageEntry option) list"

definition w_updateUI :: "widget \<Rightarrow> widget" where
  "w_updateUI s = s\<lparr>w_ui := w_ui s @ [W_UpdateUI (w_currentState s)]\<rparr>"

definition w_processUserMessage_enter :: "widget \<Rightarrow> widget" where
  "w_processUserMessage_enter s =
     (let h = w_conversationHistory s;
          lastUserMessage = (if h = [] then None else Some (last h))
      in s\<lparr>w_timers := w_timers s @ [(1500, lastUserMessage)]\<rparr>)"

definition w_handleStateChange :: "ui_state \<Rightarrow> ui_state \<Rightarrow> widget \<Rightarrow> widget" where
  "w_handleStateChange oldState newState s =
     (let s1 = (case oldState of
                  LISTENING \<Rightarrow> s\<lparr>w_ui := w_ui s @ [W_WaveformStop]\<rparr>
                | _ \<Rightarrow> s)
      in case newState of
           THINKING \<Rightarrow> w_processUserMessage_enter s1
         | _ \<Rightarrow> s1)"

definition w_setState :: "ui_state \<Rightarrow> widget \<Rightarrow> widget" where
  "w_setState newState s =
     (if w_currentState s = newState then s
      else let oldState = w_currentState s;
               s1 = s\<lparr>w_currentState := newState\<rparr>;
               s2 = w_updateUI s1
           in w_handleStateChange oldState newState s2)"

section \<open>The speech service (src/unnamed/part_004, first \<^verbatim>\<open>SpeechService\<close>)\<close>

text \<open>
  The fields of \<^verbatim>\<open>SpeechService\<close>. An audio chunk is a \<^verbatim>\<open>Blob\<close>, modelled by its bytes. The
  \<^verbatim>\<open>MediaRecorder\<close> is \<^verbatim>\<open>null\<close> or an object in state \<^verbatim>\<open>'inactive'\<close> or \<^verbatim>\<open>'recording'\<close>.
  \<^verbatim>\<open>silenceTimer\<close> is \<^verbatim>\<open>null\<close> or a timeout, modelled by the time at which it is due. The
  two callbacks act on the object they close over, here the field \<open>client\<close>. Calls that
  leave the service are recorded in \<open>io\<close>, and promise rejections that nothing handles in
  \<open>unhandled\<close>. The threshold 0.01 is taken as the real number.
\<close>

type_synonym blob = "8 word list"

datatype recorder_state = Inactive | Recording

datatype io_effect =
    GetUserMedia
  | RecorderStart
  | RecorderStop
  | FetchTranscribe blob
  | FetchParse string
  | StorageSet string
  | SendMessage stateData

record 'c service =
  mediaRecorder :: "recorder_state option"
  audioChunks :: "blob list"
  silenceTimer :: "nat option"
  audioContext :: bool
  analyser :: bool
  stream :: bool
  silenceThreshold :: real
  silenceDuration :: nat
  isRecording :: bool
  onTranscriptionCallback :: "(string \<Rightarrow> 'c \<Rightarrow> 'c) option"
  onStateChangeCallback :: "(stateData \<Rightarrow> 'c \<Rightarrow> 'c) option"
  client :: 'c
  io :: "io_effect list"
  unhandled :: "string list"

definition service_constructor :: "'c \<Rightarrow> 'c service" where
  "service_constructor c = \<lparr>mediaRecorder = None, audioChunks = [], silenceTimer = None,
     audioContext = False, analyser = False, stream = False, silenceThreshold = 1 / 100,
     silenceDuration = 2000, isRecording = False, onTranscriptionCallback = None,
     onStateChangeCallback = None, client = c, io = [], unhandled = []\<rparr>"

subsection \<open>Notifications\<close>

text \<open>
  \<^verbatim>\<open>chrome.runtime.sendMessage\<close> returns a promise. \<^verbatim>\<open>.catch(() => {})\<close> turns a rejection
  into a fulfilled promise; a promise left rejected is reported as an unhandled rejection.
  The first argument of \<open>updateState\<close> is \<open>None\<close> where \<^verbatim>\<open>chrome.runtime\<close> does not exist
  (page context), otherwise what the promise of the send settles to.
\<close>

datatype promise = Fulfilled | Rejected string

definition promise_catch :: "promise \<Rightarrow> promise" where
  "promise_catch p = (case p of Rejected reason \<Rightarrow> Fulfilled | Fulfilled \<Rightarrow> Fulfilled)"

definition settle :: "promise \<Rightarrow> 'c service \<Rightarrow> 'c service" where
  "settle p s = (case p of Rejected reason \<Rightarrow> s\<lparr>unhandled := unhandled s @ [reason]\<rparr>
                 | Fulfilled \<Rightarrow> s)"

definition updateState ::
  "promise option \<Rightarrow> nat \<Rightarrow> string \<Rightarrow> string option \<Rightarrow> 'c service \<Rightarrow> 'c service" where
  "updateState chrome now state message s =
     (let stateData = \<lparr>sd_state = state, sd_message = message, sd_timestamp = now\<rparr>;
          s1 = (case onStateChangeCallback s of
                  None \<Rightarrow> s
                | Some callback \<Rightarrow> s\<lparr>client := callback stateData (client s)\<rparr>)
      in case chrome of
           None \<Rightarrow> s1
         | Some sent \<Rightarrow> settle (promise_catch sent) (s1\<lparr>io := io s1 @ [SendMessage stateData]\<rparr>))"

subsection \<open>Silence detection\<close>

text \<open>
  \<^verbatim>\<open>checkVolume\<close> reads \<^verbatim>\<open>bufferLength\<close> bytes into a \<^verbatim>\<open>Uint8Array\<close>, sums the squares of
  \<^verbatim>\<open>(dataArray[i] - 128) / 128\<close> and takes \<^verbatim>\<open>Math.sqrt(sum / bufferLength)\<close>. With no samples
  the quotient is \<^verbatim>\<open>NaN\<close>, here \<open>None\<close>, and every comparison with it is false.
\<close>

definition normalized :: "8 word \<Rightarrow> real" where
  "normalized b = (real (unat b) - 128) / 128"

definition rms :: "8 word list \<Rightarrow> real option" where
  "rms dataArray =
     (let bufferLength = length dataArray;
          sum = foldl (\<lambda>sum b. sum + normalized b * normalized b) 0 dataArray
      in if bufferLength = 0 then None else Some (sqrt (sum / real bufferLength)))"

definition js_less :: "real option \<Rightarrow> real \<Rightarrow> bool" where
  "js_less x y = (case x of None \<Rightarrow> False | Some v \<Rightarrow> v < y)"

definition checkVolume :: "nat \<Rightarrow> 8 word list \<Rightarrow> 'c service \<Rightarrow> 'c service" where
  "checkVolume now dataArray s =
     (if \<not> isRecording s then s
      else if js_less (rms dataArray) (silenceThreshold s) then
        (if silenceTimer s = None then s\<lparr>silenceTimer := Some (now + silenceDuration s)\<rparr> else s)
      else
        (if silenceTimer s \<noteq> None then s\<lparr>silenceTimer := None\<rparr> else s))"

definition detectSilence :: "nat \<Rightarrow> 8 word list \<Rightarrow> 'c service \<Rightarrow> 'c service" where
  "detectSilence now dataArray s =
     (if \<not> isRecording s \<or> \<not> analyser s then s else checkVolume now dataArray s)"

definition stopRecording :: "'c service \<Rightarrow> 'c service" where
  "stopRecording s =
     (if \<not> isRecording s then s
      else let s1 = s\<lparr>isRecording := False, silenceTimer := None\<rparr>
           in case mediaRecorder s1 of
                Some Recording \<Rightarrow> s1\<lparr>mediaRecorder := Some Inactive, io := io s1 @ [RecorderStop]\<rparr>
              | _ \<Rightarrow> s1)"

text \<open>
  What happens to a recording service over time: an animation frame runs \<^verbatim>\<open>checkVolume\<close>
  on the samples of that moment, and when time passes a silence timer that has become due
  runs its callback, \<^verbatim>\<open>stopRecording\<close>. A timeout is taken to run as soon as its delay is
  over. The first component of the pair is the clock, in milliseconds.
\<close>

datatype vad_event = Frame "8 word list" | Wait nat

fun vad_step :: "vad_event \<Rightarrow> nat \<times> 'c service \<Rightarrow> nat \<times> 'c service" where
  "vad_step (Frame dataArray) (now, s) = (now, checkVolume now dataArray s)"
| "vad_step (Wait ms) (now, s) =
     (now + ms,
      case silenceTimer s of
        None \<Rightarrow> s
      | Some due \<Rightarrow> if due \<le> now + ms then stopRecording s else s)"

fun vad_run :: "vad_event list \<Rightarrow> nat \<times> 'c service \<Rightarrow> nat \<times> 'c service" where
  "vad_run [] c = c"
| "vad_run (e # es) c = vad_run es (vad_step e c)"

fun total_wait :: "vad_event list \<Rightarrow> nat" where
  "total_wait [] = 0"
| "total_wait (Frame dataArray # es) = total_wait es"
| "total_wait (Wait ms # es) = ms + total_wait es"

text \<open>All frames of a run are below the threshold, or none is.\<close>

fun frames_below :: "real \<Rightarrow> vad_event list \<Rightarrow> bool" where
  "frames_below th [] = True"
| "frames_below th (Frame dataArray # es) = (js_less (rms dataArray) th \<and> frames_below th es)"
| "frames_below th (Wait ms # es) = frames_below th es"

fun frames_above :: "real \<Rightarrow> vad_event list \<Rightarrow> bool" where
  "frames_above th [] = True"
| "frames_above th (Frame dataArray # es) = (\<not> js_less (rms dataArray) th \<and> frames_above th es)"
| "frames_above th (Wait ms # es) = frames_above th es"

definition stops :: "'c service \<Rightarrow> nat" where
  "stops s = length (filter (\<lambda>e. e = RecorderStop) (io s))"

subsection \<open>Starting a recording\<close>

text \<open>
  A thrown error object has a name and a message. \<^verbatim>\<open>toString()\<close> gives the message when
  the name is empty, the name when the message is empty, and otherwise both with a colon
  between. The \<^verbatim>\<open>catch\<close> block of \<^verbatim>\<open>startRecording\<close> computes
  \<^verbatim>\<open>error?.message || error?.toString() || 'Unknown error'\<close>.
\<close>

record thrown =
  e_name :: string
  e_message :: string

definition toString :: "thrown \<Rightarrow> string" where
  "toString e =
     (if e_name e = [] then e_message e
      else if e_message e = [] then e_name e
      else e_name e @ '': '' @ e_message e)"

definition errorMessage :: "thrown \<Rightarrow> string" where
  "errorMessage e =
     (if e_message e \<noteq> [] then e_message e
      else if toString e \<noteq> [] then toString e
      else ''Unknown error'')"

text \<open>
  \<^verbatim>\<open>getUserMedia\<close> resolves or rejects with an error; the call is made only when no stream
  is held. \<open>setup\<close> is what \<^verbatim>\<open>new MediaRecorder(this.stream)\<close> throws, if anything: by
  then the flag, the buffer, the audio context and the analyser are set, and the \<^verbatim>\<open>catch\<close>
  block resets none of them. Everything from the \<^verbatim>\<open>await\<close> to the \<^verbatim>\<open>return\<close> is taken in one
  piece. The samples are those of the first \<^verbatim>\<open>checkVolume\<close>, which \<^verbatim>\<open>detectSilence\<close> runs at
  once.
\<close>

datatype media = Granted | Denied thrown

record start_result =
  success :: bool
  error :: "string option"

definition startRecording ::
  "promise option \<Rightarrow> media \<Rightarrow> thrown option \<Rightarrow> nat \<Rightarrow> 8 word list \<Rightarrow> 'c service \<Rightarrow>
     start_result \<times> 'c service" where
  "startRecording chrome granted setup now dataArray s =
     (if isRecording s then
        (\<lparr>success = False, error = Some ''Recording already in progress''\<rparr>, s)
      else
        let s0 = (if stream s then s else s\<lparr>io := io s @ [GetUserMedia]\<rparr>) in
        case (if stream s then Granted else granted) of
          Denied e \<Rightarrow>
            (\<lparr>success = False, error = Some (errorMessage e)\<rparr>,
             updateState chrome now ''error'' (Some (errorMessage e)) s0)
        | Granted \<Rightarrow>
            let s1 = s0\<lparr>stream := True, audioChunks := [], isRecording := True\<rparr>;
                s2 = updateState chrome now ''recording'' (Some ''Listening...'') s1;
                s3 = s2\<lparr>audioContext := True, analyser := True\<rparr>
            in case setup of
                 Some e \<Rightarrow>
                   (\<lparr>success = False, error = Some (errorMessage e)\<rparr>,
                    updateState chrome now ''error'' (Some (errorMessage e)) s3)
               | None \<Rightarrow>
                   let s4 = s3\<lparr>mediaRecorder := Some Recording, io := io s3 @ [RecorderStart]\<rparr>
                   in (\<lparr>success = True, error = None\<rparr>, detectSilence now dataArray s4))"

text \<open>
  The second \<^verbatim>\<open>SpeechService\<close> of part_004 (the one that calls the transcription API
  itself). Its \<^verbatim>\<open>startRecording\<close> begins with \<^verbatim>\<open>try\<close> and \<^verbatim>\<open>getUserMedia\<close>, keeps the stream in a
  local constant, and its \<^verbatim>\<open>updateState\<close> sends without asking whether \<^verbatim>\<open>chrome.runtime\<close>
  exists. Its \<^verbatim>\<open>catch\<close> block reports \<^verbatim>\<open>error.message\<close>. It is taken where the audio setup
  behind \<^verbatim>\<open>getUserMedia\<close> does not throw.
\<close>

definition updateState2 ::
  "promise \<Rightarrow> nat \<Rightarrow> string \<Rightarrow> string option \<Rightarrow> 'c service \<Rightarrow> 'c service" where
  "updateState2 sent now state message s =
     (let stateData = \<lparr>sd_state = state, sd_message = message, sd_timestamp = now\<rparr>;
          s1 = (case onStateChangeCallback s of
                  None \<Rightarrow> s
                | Some callback \<Rightarrow> s\<lparr>client := callback stateData (client s)\<rparr>)
      in settle (promise_catch sent) (s1\<lparr>io := io s1 @ [SendMessage stateData]\<rparr>))"

definition startRecording2 ::
  "promise \<Rightarrow> media \<Rightarrow> nat \<Rightarrow> 8 word list \<Rightarrow> 'c service \<Rightarrow> start_result \<times> 'c service" where
  "startRecording2 sent granted now dataArray s =
     (let s0 = s\<lparr>io := io s @ [GetUserMedia]\<rparr> in
      case granted of
        Denied e \<Rightarrow>
          (\<lparr>success = False, error = Some (e_message e)\<rparr>,
           updateState2 sent now ''error'' (Some (e_message e)) s0)
      | Granted \<Rightarrow>
          let s1 = s0\<lparr>audioChunks := [], isRecording := True\<rparr>;
              s2 = updateState2 sent now ''recording'' (Some ''Listening...'') s1;
              s3 = s2\<lparr>audioContext := True, analyser := True,
                     mediaRecorder := Some Recording, io := io s2 @ [RecorderStart]\<rparr>
          in (\<lparr>success = True, error = None\<rparr>, detectSilence now dataArray s3))"

subsection \<open>Processing the recorded audio\<close>

text \<open>
  The answer to the \<^verbatim>\<open>fetch\<close> of \<^verbatim>\<open>transcribeAudio\<close>: the request fails, or a response comes
  with its \<^verbatim>\<open>ok\<close> flag and a body that \<^verbatim>\<open>response.json()\<close> rejects (with a message) or parses
  to \<^verbatim>\<open>{ status, text, message }\<close>. A thrown \<^verbatim>\<open>Error\<close> is modelled by its message.
\<close>

record json =
  j_status :: "string option"
  j_text :: string
  j_message :: "string option"

datatype fetch_result = NetworkError string | Response bool "string + json"

definition transcribeAudio ::
  "fetch_result \<Rightarrow> blob \<Rightarrow> 'c service \<Rightarrow> (string + string) \<times> 'c service" where
  "transcribeAudio response audioFile s =
     (let s1 = s\<lparr>io := io s @ [FetchTranscribe audioFile]\<rparr> in
      case response of
        NetworkError reason \<Rightarrow> (Inl reason, s1)
      | Response ok body \<Rightarrow>
          (case body of
             Inl reason \<Rightarrow> (Inl reason, s1)
           | Inr result \<Rightarrow>
               if \<not> ok then (Inl (js_or (j_message result) ''Transcription failed''), s1)
               else if j_status result \<noteq> Some ''success''
               then (Inl (js_or (j_message result) ''Transcription failed''), s1)
               else (Inr (j_text result), s1)))"

text \<open>\<^verbatim>\<open>storeTranscription\<close> writes only where \<^verbatim>\<open>chrome.storage.local\<close> exists, and swallows failures.\<close>

definition storeTranscription :: "bool \<Rightarrow> string \<Rightarrow> 'c service \<Rightarrow> 'c service" where
  "storeTranscription storage txt s = (if storage then s\<lparr>io := io s @ [StorageSet txt]\<rparr> else s)"

definition too_short :: string where
  "too_short = ''Recording too short. Please speak longer.''"

text \<open>
  \<^verbatim>\<open>processAudio\<close>: the \<^verbatim>\<open>catch\<close> block notifies \<^verbatim>\<open>'error'\<close> and throws again, so the result is
  the error (\<open>Inl\<close>) or the transcribed text. \<open>now\<close> is the clock at the call, \<open>later\<close>
  the clock once the transcription request has been answered.
\<close>

definition processAudio ::
  "promise option \<Rightarrow> bool \<Rightarrow> fetch_result \<Rightarrow> nat \<Rightarrow> nat \<Rightarrow> 'c service \<Rightarrow>
     (string + string) \<times> 'c service" where
  "processAudio chrome storage response now later s =
     (let s1 = updateState chrome now ''processing'' (Some ''Processing your speech...'') s;
          audioBlob = concat (audioChunks s1)
      in if length audioBlob < 1000 then
           (Inl too_short, updateState chrome now ''error'' (Some too_short) s1)
         else
           (case transcribeAudio response audioBlob s1 of
              (Inl reason, s2) \<Rightarrow> (Inl reason, updateState chrome later ''error'' (Some reason) s2)
            | (Inr txt, s2) \<Rightarrow>
                let s3 = storeTranscription storage txt s2;
                    s4 = updateState chrome later ''completed'' (Some txt) s3;
                    s5 = (case onTranscriptionCallback s4 of
                            None \<Rightarrow> s4
                          | Some callback \<Rightarrow> s4\<lparr>client := callback txt (client s4)\<rparr>);
                    s6 = s5\<lparr>io := io s5 @ [FetchParse txt]\<rparr>
                in (Inr txt, s6)))"

text \<open>
  The two handlers of the \<^verbatim>\<open>MediaRecorder\<close>. \<^verbatim>\<open>onstop\<close> is an \<^verbatim>\<open>async\<close> function nobody
  awaits, so an error thrown by \<^verbatim>\<open>processAudio\<close> ends as an unhandled rejection.
\<close>

definition ondataavailable :: "blob \<Rightarrow> 'c service \<Rightarrow> 'c service" where
  "ondataavailable data s = (if length data > 0 then s\<lparr>audioChunks := audioChunks s @ [data]\<rparr> else s)"

definition onstop ::
  "promise option \<Rightarrow> bool \<Rightarrow> fetch_result \<Rightarrow> nat \<Rightarrow> nat \<Rightarrow> 'c service \<Rightarrow> 'c service" where
  "onstop chrome storage response now later s =
     (if length (audioChunks s) > 0 then
        (case processAudio chrome storage response now later s of
           (Inl reason, s1) \<Rightarrow> s1\<lparr>unhandled := unhandled s1 @ [reason]\<rparr>
         | (Inr txt, s1) \<Rightarrow> s1)
      else s)"

subsection \<open>The service with the popup controller behind its callbacks\<close>

text \<open>
  \<^verbatim>\<open>PopupController.init\<close> registers its two handlers; \<open>d\<close> and \<open>now\<close> are what the DOM
  and the clock answer when the transcription handler runs.
\<close>

definition init :: "dom \<Rightarrow> nat \<Rightarrow> popup service \<Rightarrow> popup service" where
  "init d now s = s\<lparr>onTranscriptionCallback := Some (onTranscription_handler d now),
     onStateChangeCallback := Some onStateChange_handler\<rparr>"

text \<open>The messages shown with \<^verbatim>\<open>alert\<close>, and the audio handed to the transcription request.\<close>

fun alerts :: "ui_effect list \<Rightarrow> string list" where
  "alerts [] = []"
| "alerts (Alert msg # es) = msg # alerts es"
| "alerts (e # es) = alerts es"

fun sent_audio :: "io_effect list \<Rightarrow> blob list" where
  "sent_audio [] = []"
| "sent_audio (FetchTranscribe audioFile # es) = audioFile # sent_audio es"
| "sent_audio (e # es) = sent_audio es"

text \<open>
  The transcription call fails: no response, a response that is not 2xx, or a body that
  is unreadable or whose \<^verbatim>\<open>status\<close> is not \<^verbatim>\<open>"success"\<close>.
\<close>

definition call_fails :: "fetch_result \<Rightarrow> bool" where
  "call_fails response =
     (case response of
        NetworkError reason \<Rightarrow> True
      | Response ok body \<Rightarrow>
          (if ok then (case body of Inl reason \<Rightarrow> True | Inr result \<Rightarrow> j_status result \<noteq> Some ''success'')
           else True))"

section \<open>Histories, runs and example states\<close>

definition button_dom :: dom where
  "button_dom = \<lparr>voiceButton = True, existingBubbles = 0\<rparr>"

definition hello :: messageEntry where
  "hello = \<lparr>text = ''hello'', sender = ''user'', timestamp = 1, element = None\<rparr>"

definition answer :: messageEntry where
  "answer = \<lparr>text = ''hi there'', sender = ''bot'', timestamp = 2, element = None\<rparr>"

text \<open>A transcription has just arrived: one user entry, nothing else going on.\<close>

definition asked :: popup where
  "asked = \<lparr>currentState = THINKING, conversationHistory = [hello], isProcessing = False,
     ui = [], timers = []\<rparr>"

text \<open>The same, with a call of \<^verbatim>\<open>processUserMessage\<close> waiting on its 1500 ms timer.\<close>

definition waiting :: popup where
  "waiting = \<lparr>currentState = THINKING, conversationHistory = [hello], isProcessing = True,
     ui = [], timers = []\<rparr>"

text \<open>The user entry has been answered.\<close>

definition answered :: popup where
  "answered = \<lparr>currentState = THINKING, conversationHistory = [hello, answer],
     isProcessing = False, ui = [], timers = []\<rparr>"

text \<open>
  \<open>extends h h'\<close>: the history \<open>h'\<close> has every entry of \<open>h\<close> at its old position, with
  the text, sender and timestamp it had.
\<close>

definition extends :: "messageEntry list \<Rightarrow> messageEntry list \<Rightarrow> bool" where
  "extends h h' =
     (length h \<le> length h' \<and>
      (\<forall>i < length h. text (h' ! i) = text (h ! i) \<and> sender (h' ! i) = sender (h ! i) \<and>
         timestamp (h' ! i) = timestamp (h ! i)))"




text \<open>
  A service that records with the settings of the constructor, a frame of silence (every
  sample at the midpoint 128) and a frame at full amplitude.
\<close>

definition recording_service :: "unit service" where
  "recording_service = \<lparr>mediaRecorder = Some Recording, audioChunks = [], silenceTimer = None,
     audioContext = True, analyser = True, stream = True, silenceThreshold = 1 / 100,
     silenceDuration = 2000, isRecording = True, onTranscriptionCallback = None,
     onStateChangeCallback = None, client = (), io = [RecorderStart], unhandled = []\<rparr>"

definition silent_frame :: "8 word list" where
  "silent_frame = [128, 128]"

definition loud_frame :: "8 word list" where
  "loud_frame = [255, 255]"

text \<open>The second \<^verbatim>\<open>SpeechService\<close> after one successful \<^verbatim>\<open>startRecording\<close>.\<close>

definition first_recording :: "unit service" where
  "first_recording = snd (startRecording2 Fulfilled Granted 0 loud_frame (service_constructor ()))"

text \<open>
  The controller listens; the service has stopped recording and holds one chunk of 1000
  bytes, or one of three bytes. The transcription service answers
  \<^verbatim>\<open>{status: "error", message: "too short"}\<close>.
\<close>

definition recorded :: "blob \<Rightarrow> popup service" where
  "recorded chunk = init button_dom 20
     \<lparr>mediaRecorder = Some Inactive, audioChunks = [chunk], silenceTimer = None,
      audioContext = True, analyser = True, stream = True, silenceThreshold = 1 / 100,
      silenceDuration = 2000, isRecording = False, onTranscriptionCallback = None,
      onStateChangeCallback = None, client = constructor\<lparr>currentState := LISTENING\<rparr>,
      io = [GetUserMedia, RecorderStart, RecorderStop], unhandled = []\<rparr>"

text \<open>
  The controller is registered with a fresh service; a recording is started, stopped
  again before anything was captured, and the recorder delivers its (empty) data.
\<close>

definition started :: "popup service" where
  "started = snd (startRecording None Granted None 0 loud_frame
     (init button_dom 20 (service_constructor constructor)))"

definition stopped_empty :: "popup service" where
  "stopped_empty = ondataavailable [] (stopRecording started)"

definition refusal :: fetch_result where
  "refusal = Response True (Inr \<lparr>j_status = Some ''error'', j_text = [], j_message = Some ''too short''\<rparr>)"

section \<open>Properties of the popup controller\<close>

lemma currentState_setState: "currentState (setState t s) = t"
  by (simp add: setState_def Let_def handleStateChange_def updateUI_def split: ui_state.splits)

lemma conversationHistory_setState: "conversationHistory (setState t s) = conversationHistory s"
  by (simp add: setState_def Let_def handleStateChange_def updateUI_def split: ui_state.splits)


lemma conversationHistory_addChatMessage:
  "conversationHistory (addChatMessage d now txt sndr s) =
     conversationHistory s @ [\<lparr>text = txt, sender = sndr, timestamp = now, element = None\<rparr>]"
  by (simp add: addChatMessage_def Let_def)


text \<open>
  C3. Asking either controller for the state it is already in changes nothing: the state,
  the history, the pending timers and the record of outside calls (so no second
  \<^verbatim>\<open>updateUI\<close>, no second state-change handling, nothing started) are all as before.
\<close>

theorem setState_same_state_noop:
  "setState (currentState s) s = s \<and> w_setState (w_currentState w) w = w"
  by (simp add: setState_def w_setState_def)

lemma lastUserBelow_Some:
  "lastUserBelow h n = Some i \<longleftrightarrow>
     i < n \<and> sender (h ! i) = ''user'' \<and> (\<forall>j. i < j \<and> j < n \<longrightarrow> sender (h ! j) \<noteq> ''user'')"
proof (induction n)
  case 0
  show ?case by simp
next
  case (Suc n)
  show ?case
  proof (cases "sender (h ! n) = ''user''")
    case True
    have "i = n" if "i < Suc n" and "\<forall>j. i < j \<and> j < Suc n \<longrightarrow> sender (h ! j) \<noteq> ''user''"
    proof (rule ccontr)
      assume "i \<noteq> n"
      with that(1) have "i < n" by simp
      with that(2) True show False by auto
    qed
    with True show ?thesis by auto
  next
    case False
    have "j < n" if "j < Suc n" and "sender (h ! j) = ''user''" for j
      using that False by (cases "j = n") auto
    with False Suc show ?thesis
      by (auto simp: less_Suc_eq)
  qed
qed

text \<open>
  The loop finds the most recent entry sent by the user, and \<open>hasResponse\<close> says that an
  entry sent by the bot comes after it.
\<close>

lemma lastUserIndex_Some:
  "lastUserIndex h = Some i \<longleftrightarrow>
     i < length h \<and> sender (h ! i) = ''user'' \<and>
     (\<forall>j. i < j \<and> j < length h \<longrightarrow> sender (h ! j) \<noteq> ''user'')"
  by (simp add: lastUserIndex_def lastUserBelow_Some)

lemma hasResponse_iff:
  "hasResponse h i \<longleftrightarrow> (\<exists>j. i < j \<and> j < length h \<and> sender (h ! j) = ''bot'')"
proof
  assume "hasResponse h i"
  then obtain k where k: "k < length h - Suc i" "sender (drop (Suc i) h ! k) = ''bot''"
    by (auto simp: hasResponse_def list_ex_iff in_set_conv_nth)
  then have "i < Suc i + k \<and> Suc i + k < length h \<and> sender (h ! (Suc i + k)) = ''bot''"
    by simp
  then show "\<exists>j. i < j \<and> j < length h \<and> sender (h ! j) = ''bot''"
    by blast
next
  assume "\<exists>j. i < j \<and> j < length h \<and> sender (h ! j) = ''bot''"
  then obtain j where j: "i < j" "j < length h" "sender (h ! j) = ''bot''"
    by blast
  then have "j - Suc i < length (drop (Suc i) h)" "drop (Suc i) h ! (j - Suc i) = h ! j"
    by simp_all
  then have "h ! j \<in> set (drop (Suc i) h)"
    by (metis nth_mem)
  with j(3) show "hasResponse h i"
    by (auto simp: hasResponse_def list_ex_iff)
qed

lemma isProcessing_resume: "\<not> isProcessing (processUserMessage_resume agent d now m s)"
  by (simp add: processUserMessage_resume_def)

lemma enter_busy: "isProcessing s \<Longrightarrow> processUserMessage_enter s = (s, None)"
  by (simp add: processUserMessage_enter_def)

lemma enter_flag:
  "\<not> isProcessing s \<Longrightarrow>
     isProcessing (fst (processUserMessage_enter s)) = (snd (processUserMessage_enter s) \<noteq> None)"
  by (simp add: processUserMessage_enter_def Let_def split: option.splits)

lemma unanswered_hello: "lastUserIndex [hello] = Some 0" "\<not> hasResponse [hello] 0"
  by (simp_all add: lastUserIndex_def hasResponse_def hello_def)

lemma answered_hello: "lastUserIndex [hello, answer] = Some 0" "hasResponse [hello, answer] 0"
  by (simp_all add: lastUserIndex_def hasResponse_def hello_def answer_def numeral_2_eq_2)

subsection \<open>The guards of the response step\<close>

text \<open>
  C10. A call of \<^verbatim>\<open>processUserMessage\<close> made while the flag \<^verbatim>\<open>_isProcessing\<close> is set returns
  at once and leaves the whole controller as it was (history, state and everything else).
  A call made with the flag clear leaves it clear when it ends, whichever way it ends (no
  user entry, entry already answered, response added, agent failed); while it waits on
  its timer the flag is set, and the part that runs after the timer clears the flag from
  any state.
\<close>

theorem processUserMessage_exclusive:
  "(isProcessing s \<longrightarrow>
      processUserMessage_enter s = (s, None) \<and> processUserMessage_with agent d now s = s) \<and>
   (\<not> isProcessing s \<longrightarrow>
      \<not> isProcessing (processUserMessage_with agent d now s) \<and>
      isProcessing (fst (processUserMessage_enter s)) = (snd (processUserMessage_enter s) \<noteq> None)) \<and>
   \<not> isProcessing (processUserMessage_resume agent d now m s')"
proof (intro conjI impI)
  assume busy: "isProcessing s"
  then show "processUserMessage_enter s = (s, None)"
    by (rule enter_busy)
  then show "processUserMessage_with agent d now s = s"
    by (simp add: processUserMessage_with_def)
next
  assume idle: "\<not> isProcessing s"
  show "\<not> isProcessing (processUserMessage_with agent d now s)"
  proof (cases "processUserMessage_enter s")
    case (Pair s1 k)
    show ?thesis
    proof (cases k)
      case None
      with Pair enter_flag [OF idle] show ?thesis
        by (simp add: processUserMessage_with_def)
    next
      case (Some lastUserMessage)
      with Pair show ?thesis
        by (simp add: processUserMessage_with_def isProcessing_resume)
    qed
  qed
  show "isProcessing (fst (processUserMessage_enter s)) = (snd (processUserMessage_enter s) \<noteq> None)"
    using idle by (rule enter_flag)
next
  show "\<not> isProcessing (processUserMessage_resume agent d now m s')"
    by (rule isProcessing_resume)
qed

theorem processUserMessage_exclusive_witness:
  "isProcessing waiting \<and>
   processUserMessage_with (\<lambda>m. Inl ''offline'') button_dom 3 waiting = waiting \<and>
   \<not> isProcessing asked \<and>
   \<not> isProcessing (processUserMessage_with (\<lambda>m. Inl ''offline'') button_dom 3 asked) \<and>
   isProcessing (fst (processUserMessage_enter asked))"
  using processUserMessage_exclusive [of waiting "\<lambda>m. Inl ''offline''" button_dom 3 hello waiting]
    processUserMessage_exclusive [of asked "\<lambda>m. Inl ''offline''" button_dom 3 hello waiting]
  by (simp add: waiting_def asked_def processUserMessage_enter_def unanswered_hello)

text \<open>
  C1, as the code has it. For a call of \<^verbatim>\<open>processUserMessage\<close> made while no earlier call is
  in progress and run to its end: if the most recent user entry already has a bot entry
  after it, the history is unchanged and the state is \<^verbatim>\<open>IDLE\<close>; if it has none, exactly one
  entry is appended, its sender is \<^verbatim>\<open>'bot'\<close>, and the state is \<^verbatim>\<open>RESPONDING\<close>.
\<close>

theorem processUserMessage_step:
  assumes "\<not> isProcessing s"
    and "lastUserIndex (conversationHistory s) = Some i"
  shows "(hasResponse (conversationHistory s) i \<longrightarrow>
            conversationHistory (processUserMessage d now s) = conversationHistory s \<and>
            currentState (processUserMessage d now s) = IDLE) \<and>
         (\<not> hasResponse (conversationHistory s) i \<longrightarrow>
            conversationHistory (processUserMessage d now s) =
              conversationHistory s @
                [\<lparr>text = getAgentResponse (text (conversationHistory s ! i)), sender = ''bot'',
                  timestamp = now, element = None\<rparr>] \<and>
            currentState (processUserMessage d now s) = RESPONDING)"
  using assms
  by (simp add: processUserMessage_def processUserMessage_with_def processUserMessage_enter_def
      processUserMessage_resume_def Let_def currentState_setState conversationHistory_setState
      conversationHistory_addChatMessage)

theorem processUserMessage_step_witness:
  "\<not> isProcessing asked \<and> lastUserIndex (conversationHistory asked) = Some 0 \<and>
   \<not> hasResponse (conversationHistory asked) 0 \<and>
   length (conversationHistory (processUserMessage button_dom 3 asked)) = 2 \<and>
   sender (conversationHistory (processUserMessage button_dom 3 asked) ! 1) = ''bot'' \<and>
   currentState (processUserMessage button_dom 3 asked) = RESPONDING \<and>
   \<not> isProcessing answered \<and> lastUserIndex (conversationHistory answered) = Some 0 \<and>
   hasResponse (conversationHistory answered) 0 \<and>
   conversationHistory (processUserMessage button_dom 3 answered) = [hello, answer] \<and>
   currentState (processUserMessage button_dom 3 answered) = IDLE"
  using processUserMessage_step [of asked 0 button_dom 3]
    processUserMessage_step [of answered 0 button_dom 3]
  by (simp add: asked_def answered_def unanswered_hello answered_hello)

text \<open>
  C1 as stated fails for a call made while an earlier one waits on its timer: the most
  recent user entry has no bot entry after it, yet the call appends nothing and the state
  stays \<^verbatim>\<open>THINKING\<close>.
\<close>

theorem processUserMessage_step_counterexample:
  "lastUserIndex (conversationHistory waiting) = Some 0 \<and>
   \<not> hasResponse (conversationHistory waiting) 0 \<and>
   conversationHistory (processUserMessage button_dom 3 waiting) = conversationHistory waiting \<and>
   currentState (processUserMessage button_dom 3 waiting) = THINKING"
  by (simp add: waiting_def processUserMessage_def processUserMessage_with_def
      processUserMessage_enter_def unanswered_hello)

subsection \<open>Entries of the history\<close>

lemma extends_refl: "extends h h"
  by (simp add: extends_def)

lemma extends_trans: "extends h h' \<Longrightarrow> extends h' h'' \<Longrightarrow> extends h h''"
  by (auto simp: extends_def)

lemma extends_append: "extends h (h @ es)"
  by (simp add: extends_def nth_append)

lemma extends_element: "extends h (h[ref := (h ! ref)\<lparr>element := x\<rparr>])"
proof (cases "ref < length h")
  case True
  then show ?thesis
    by (auto simp: extends_def nth_list_update)
next
  case False
  then have "h[ref := (h ! ref)\<lparr>element := x\<rparr>] = h"
    by (simp add: list_update_beyond)
  then show ?thesis
    by (simp add: extends_refl)
qed

lemma extends_setState: "extends (conversationHistory s) (conversationHistory (setState t s))"
  by (simp add: conversationHistory_setState extends_refl)

lemma extends_addChatMessage:
  "extends (conversationHistory s) (conversationHistory (addChatMessage d now txt sndr s))"
  by (simp add: conversationHistory_addChatMessage extends_append)

lemma extends_addBubbleToPosition:
  "extends (conversationHistory s)
     (conversationHistory (addBubbleToPosition node txt sndr messageEntry s))"
  by (cases messageEntry) (simp_all add: addBubbleToPosition_def extends_refl extends_element)

lemma conversationHistory_enter:
  "conversationHistory (fst (processUserMessage_enter s)) = conversationHistory s"
  by (simp add: processUserMessage_enter_def Let_def conversationHistory_setState
      split: option.splits)

lemma conversationHistory_start:
  "conversationHistory (processUserMessage_start s) = conversationHistory s"
proof (cases "processUserMessage_enter s")
  case (Pair s1 k)
  with conversationHistory_enter [of s] show ?thesis
    by (cases k) (simp_all add: processUserMessage_start_def)
qed

lemma extends_resume:
  "extends (conversationHistory s)
     (conversationHistory (processUserMessage_resume agent d now m s))"
  by (cases "agent (text m)")
    (simp_all add: processUserMessage_resume_def Let_def conversationHistory_setState
      conversationHistory_addChatMessage extends_append extends_refl)

lemma conversationHistory_onStateChange:
  "conversationHistory (onStateChange_handler stateData s) = conversationHistory s"
  by (simp add: onStateChange_handler_def conversationHistory_setState
      waveformVisualizer_stop_def alert_def)

lemma extends_perform: "extends (conversationHistory s) (conversationHistory (perform c s))"
proof (cases c)
  case (Timer agent d now node t)
  then show ?thesis
    by (cases t) (simp_all add: extends_setState extends_addBubbleToPosition extends_resume)
qed (simp_all add: extends_setState extends_addChatMessage extends_addBubbleToPosition
    conversationHistory_start conversationHistory_onStateChange extends_refl
    onTranscription_handler_def extends_append conversationHistory_addChatMessage)

lemma extends_run: "extends (conversationHistory s) (conversationHistory (run cs s))"
proof (induction cs arbitrary: s)
  case Nil
  show ?case by (simp add: extends_refl)
next
  case (Cons c cs)
  show ?case
    using extends_perform [of s c] Cons.IH [of "perform c s"]
    by (auto intro: extends_trans)
qed

text \<open>
  C9, as the code has it. An entry is \<^verbatim>\<open>{ text, sender, timestamp, element }\<close>; there is no
  \<^verbatim>\<open>correlationId\<close>. Whatever is asked of the controller afterwards, an entry of the
  history stays at its position and keeps its text, sender and timestamp. (Its \<^verbatim>\<open>element\<close>
  is assigned later, by \<^verbatim>\<open>_addBubbleToPosition\<close>.)
\<close>

theorem entry_fields_kept:
  assumes "i < length (conversationHistory s)"
  shows "i < length (conversationHistory (run cs s)) \<and>
         text (conversationHistory (run cs s) ! i) = text (conversationHistory s ! i) \<and>
         sender (conversationHistory (run cs s) ! i) = sender (conversationHistory s ! i) \<and>
         timestamp (conversationHistory (run cs s) ! i) = timestamp (conversationHistory s ! i)"
  using assms extends_run [of s cs]
  by (auto simp: extends_def)

theorem entry_fields_kept_witness:
  "0 < length (conversationHistory asked) \<and>
   text (conversationHistory
     (run [Timer (\<lambda>m. Inr (getAgentResponse m)) button_dom 3 7 (AddBubble ''hello'' ''user'' 0),
           ProcessUserMessage, SetState IDLE] asked) ! 0) = ''hello'' \<and>
   sender (conversationHistory
     (run [Timer (\<lambda>m. Inr (getAgentResponse m)) button_dom 3 7 (AddBubble ''hello'' ''user'' 0),
           ProcessUserMessage, SetState IDLE] asked) ! 0) = ''user''"
  using entry_fields_kept [of 0 asked
      "[Timer (\<lambda>m. Inr (getAgentResponse m)) button_dom 3 7 (AddBubble ''hello'' ''user'' 0),
        ProcessUserMessage, SetState IDLE]"]
  by (simp add: asked_def hello_def)

text \<open>
  C9 as stated fails: the entry that \<^verbatim>\<open>addChatMessage\<close> appended with \<^verbatim>\<open>element: null\<close> is
  modified when the timer it scheduled runs \<^verbatim>\<open>_addBubbleToPosition\<close>.
\<close>

theorem entry_immutable_counterexample:
  "timers (addChatMessage button_dom 1 ''hello'' ''user'' constructor) =
     [(50, AddBubble ''hello'' ''user'' 0)] \<and>
   conversationHistory (addChatMessage button_dom 1 ''hello'' ''user'' constructor) ! 0 =
     \<lparr>text = ''hello'', sender = ''user'', timestamp = 1, element = None\<rparr> \<and>
   conversationHistory
     (run_task (\<lambda>m. Inr (getAgentResponse m)) button_dom 2 7 (AddBubble ''hello'' ''user'' 0)
       (addChatMessage button_dom 1 ''hello'' ''user'' constructor)) ! 0 =
     \<lparr>text = ''hello'', sender = ''user'', timestamp = 1, element = Some 7\<rparr>"
  by (simp add: addChatMessage_def addBubbleToPosition_def constructor_def button_dom_def
      MAX_BUBBLES_def Let_def)

subsection \<open>Order of the states\<close>







section \<open>Properties of the speech service\<close>

subsection \<open>Silence detection\<close>

lemma vad_run_append: "vad_run (es @ es') c = vad_run es' (vad_run es c)"
  by (induction es arbitrary: c) simp_all

lemma total_wait_append: "total_wait (es @ es') = total_wait es + total_wait es'"
  by (induction es rule: total_wait.induct) simp_all

lemma checkVolume_stopped: "\<not> isRecording s \<Longrightarrow> checkVolume now dataArray s = s"
  by (simp add: checkVolume_def)

lemma checkVolume_start:
  "isRecording s \<Longrightarrow> js_less (rms dataArray) (silenceThreshold s) \<Longrightarrow> silenceTimer s = None \<Longrightarrow>
     checkVolume now dataArray s = s\<lparr>silenceTimer := Some (now + silenceDuration s)\<rparr>"
  by (simp add: checkVolume_def)

lemma checkVolume_running:
  "isRecording s \<Longrightarrow> js_less (rms dataArray) (silenceThreshold s) \<Longrightarrow> silenceTimer s \<noteq> None \<Longrightarrow>
     checkVolume now dataArray s = s"
  by (simp add: checkVolume_def)

lemma checkVolume_cancel:
  "isRecording s \<Longrightarrow> \<not> js_less (rms dataArray) (silenceThreshold s) \<Longrightarrow>
     checkVolume now dataArray s = s\<lparr>silenceTimer := None\<rparr>"
  by (cases "silenceTimer s") (simp_all add: checkVolume_def)

lemma stopRecording_effect:
  assumes "isRecording s" and "mediaRecorder s = Some Recording"
  shows "stops (stopRecording s) = stops s + 1" and "\<not> isRecording (stopRecording s)"
    and "silenceTimer (stopRecording s) = None"
  using assms by (simp_all add: stopRecording_def stops_def Let_def)

lemma stopRecording_stopped:
  "\<not> isRecording (stopRecording s)" "isRecording s \<Longrightarrow> silenceTimer (stopRecording s) = None"
  by (simp_all add: stopRecording_def Let_def split: option.splits recorder_state.splits)

lemma stopRecording_timer:
  "isRecording s \<Longrightarrow> stopRecording (s\<lparr>silenceTimer := x\<rparr>) = stopRecording s"
  by (simp add: stopRecording_def Let_def)

text \<open>Once the recording has stopped, frames and time change nothing.\<close>

lemma vad_run_stopped:
  "\<not> isRecording s \<Longrightarrow> silenceTimer s = None \<Longrightarrow> vad_run es (now, s) = (now + total_wait es, s)"
proof (induction es arbitrary: now)
  case Nil
  show ?case by simp
next
  case (Cons e es)
  show ?case
  proof (cases e)
    case (Frame dataArray)
    with Cons show ?thesis
      by (simp add: checkVolume_stopped)
  next
    case (Wait ms)
    with Cons.prems Cons.IH [OF Cons.prems, of "now + ms"] show ?thesis
      by (simp add: add.assoc)
  qed
qed

text \<open>While nothing is heard and the timer is not yet due, the state stays as it is.\<close>

lemma vad_run_quiet_short:
  "isRecording s \<Longrightarrow> silenceTimer s = Some due \<Longrightarrow> frames_below (silenceThreshold s) es \<Longrightarrow>
     now + total_wait es < due \<Longrightarrow> vad_run es (now, s) = (now + total_wait es, s)"
proof (induction es arbitrary: now)
  case Nil
  show ?case by simp
next
  case (Cons e es)
  show ?case
  proof (cases e)
    case (Frame dataArray)
    with Cons.prems have "checkVolume now dataArray s = s"
      by (simp add: checkVolume_running)
    with Frame Cons show ?thesis
      by simp
  next
    case (Wait ms)
    with Cons.prems have "vad_step e (now, s) = (now + ms, s)"
      by simp
    moreover have "vad_run es (now + ms, s) = (now + ms + total_wait es, s)"
      using Cons.prems Wait by (intro Cons.IH) simp_all
    ultimately show ?thesis
      using Wait by (simp add: add.assoc)
  qed
qed

text \<open>When nothing is heard until the timer is due, the recording is stopped, once.\<close>

lemma vad_run_quiet_long:
  "isRecording s \<Longrightarrow> silenceTimer s = Some due \<Longrightarrow> frames_below (silenceThreshold s) es \<Longrightarrow>
     now < due \<Longrightarrow> due \<le> now + total_wait es \<Longrightarrow>
     vad_run es (now, s) = (now + total_wait es, stopRecording s)"
proof (induction es arbitrary: now)
  case Nil
  then show ?case by simp
next
  case (Cons e es)
  show ?case
  proof (cases e)
    case (Frame dataArray)
    with Cons.prems have "checkVolume now dataArray s = s"
      by (simp add: checkVolume_running)
    moreover have "vad_run es (now, s) = (now + total_wait es, stopRecording s)"
      using Cons.prems Frame by (intro Cons.IH) simp_all
    ultimately show ?thesis
      using Frame by simp
  next
    case (Wait ms)
    show ?thesis
    proof (cases "due \<le> now + ms")
      case True
      with Cons.prems Wait have "vad_step e (now, s) = (now + ms, stopRecording s)"
        by simp
      moreover have "vad_run es (now + ms, stopRecording s) =
          (now + ms + total_wait es, stopRecording s)"
        using Cons.prems(1) by (intro vad_run_stopped stopRecording_stopped)
      ultimately show ?thesis
        using Wait by (simp add: add.assoc)
    next
      case False
      with Cons.prems Wait have "vad_step e (now, s) = (now + ms, s)"
        by simp
      moreover have "vad_run es (now + ms, s) = (now + ms + total_wait es, stopRecording s)"
        using Cons.prems Wait False by (intro Cons.IH) simp_all
      ultimately show ?thesis
        using Wait by (simp add: add.assoc)
    qed
  qed
qed

text \<open>While every frame is heard and no timer runs, the state stays as it is.\<close>

lemma vad_run_loud:
  "isRecording s \<Longrightarrow> silenceTimer s = None \<Longrightarrow> frames_above (silenceThreshold s) es \<Longrightarrow>
     vad_run es (now, s) = (now + total_wait es, s)"
proof (induction es arbitrary: now)
  case Nil
  show ?case by simp
next
  case (Cons e es)
  show ?case
  proof (cases e)
    case (Frame dataArray)
    with Cons.prems have "checkVolume now dataArray s = s"
      by (simp add: checkVolume_def)
    with Frame Cons show ?thesis
      by simp
  next
    case (Wait ms)
    with Cons.prems Cons.IH [of "now + ms"] show ?thesis
      by (simp add: add.assoc)
  qed
qed

lemma silence_then_stop:
  assumes "isRecording s" and "silenceTimer s = None" and "0 < silenceDuration s"
    and "js_less (rms d) (silenceThreshold s)" and "frames_below (silenceThreshold s) es"
    and "silenceDuration s \<le> total_wait es"
  shows "vad_run (Frame d # es) (now, s) = (now + total_wait es, stopRecording s)"
proof -
  let ?armed = "s\<lparr>silenceTimer := Some (now + silenceDuration s)\<rparr>"
  have "vad_run es (now, ?armed) = (now + total_wait es, stopRecording ?armed)"
    using assms by (intro vad_run_quiet_long [where due = "now + silenceDuration s"]) simp_all
  with assms show ?thesis
    by (simp add: checkVolume_start stopRecording_timer)
qed

lemma silence_interrupted:
  assumes "isRecording s" and "silenceTimer s = None"
    and "js_less (rms d) (silenceThreshold s)" and "frames_below (silenceThreshold s) es"
    and "total_wait es < silenceDuration s"
    and "\<not> js_less (rms loud) (silenceThreshold s)" and "frames_above (silenceThreshold s) es'"
  shows "vad_run (Frame d # es @ Frame loud # es') (now, s) =
           (now + total_wait es + total_wait es', s)"
proof -
  let ?armed = "s\<lparr>silenceTimer := Some (now + silenceDuration s)\<rparr>"
  have restored: "?armed\<lparr>silenceTimer := None\<rparr> = s"
    using assms(2) by (cases s) simp
  have "vad_run es (now, ?armed) = (now + total_wait es, ?armed)"
    using assms by (intro vad_run_quiet_short [where due = "now + silenceDuration s"]) simp_all
  moreover have "checkVolume (now + total_wait es) loud ?armed = s"
    using assms restored by (simp add: checkVolume_cancel)
  moreover have "vad_run es' (now + total_wait es, s) = (now + total_wait es + total_wait es', s)"
    using assms by (intro vad_run_loud) simp_all
  ultimately show ?thesis
    using assms by (simp add: checkVolume_start vad_run_append)
qed

text \<open>
  C2. The constructor sets \<^verbatim>\<open>silenceDuration\<close> to 2000 ms. While the service records: a frame below the threshold starts the timer when none
  runs and changes nothing when one runs; a frame at or above the threshold leaves no timer
  running. If a silence begins with no timer running and every frame stays below the
  threshold until \<^verbatim>\<open>silenceDuration\<close> has passed, the recorder is stopped exactly once and
  the service no longer records, whatever follows. If a frame at or above the threshold
  comes before \<^verbatim>\<open>silenceDuration\<close> has passed (one millisecond before, say), and no frame
  below it follows, nothing is stopped and the service is as it was before the silence, so
  that by the first case the timer starts again, in full, with the next frame below the
  threshold.
\<close>

theorem silence_detection:
  assumes "isRecording s"
  shows "silenceDuration (service_constructor c) = 2000 \<and>
         (js_less (rms d) (silenceThreshold s) \<and> silenceTimer s = None \<longrightarrow>
            checkVolume now d s = s\<lparr>silenceTimer := Some (now + silenceDuration s)\<rparr>) \<and>
         (js_less (rms d) (silenceThreshold s) \<and> silenceTimer s \<noteq> None \<longrightarrow>
            checkVolume now d s = s) \<and>
         (\<not> js_less (rms d) (silenceThreshold s) \<longrightarrow>
            checkVolume now d s = s\<lparr>silenceTimer := None\<rparr>) \<and>
         (silenceTimer s = None \<and> mediaRecorder s = Some Recording \<and> 0 < silenceDuration s \<and>
          js_less (rms d) (silenceThreshold s) \<and> frames_below (silenceThreshold s) es \<and>
          silenceDuration s \<le> total_wait es \<longrightarrow>
            vad_run (Frame d # es) (now, s) = (now + total_wait es, stopRecording s) \<and>
            stops (stopRecording s) = stops s + 1 \<and> \<not> isRecording (stopRecording s)) \<and>
         (silenceTimer s = None \<and>
          js_less (rms d) (silenceThreshold s) \<and> frames_below (silenceThreshold s) es \<and>
          total_wait es < silenceDuration s \<and>
          \<not> js_less (rms loud) (silenceThreshold s) \<and> frames_above (silenceThreshold s) es' \<longrightarrow>
            vad_run (Frame d # es @ Frame loud # es') (now, s) =
              (now + total_wait es + total_wait es', s))"
proof (intro conjI impI)
  show "silenceDuration (service_constructor c) = 2000"
    by (simp add: service_constructor_def)
next
  assume "js_less (rms d) (silenceThreshold s) \<and> silenceTimer s = None"
  with assms show "checkVolume now d s = s\<lparr>silenceTimer := Some (now + silenceDuration s)\<rparr>"
    by (simp add: checkVolume_start)
next
  assume "js_less (rms d) (silenceThreshold s) \<and> silenceTimer s \<noteq> None"
  with assms show "checkVolume now d s = s"
    by (simp add: checkVolume_running)
next
  assume "\<not> js_less (rms d) (silenceThreshold s)"
  with assms show "checkVolume now d s = s\<lparr>silenceTimer := None\<rparr>"
    by (rule checkVolume_cancel)
next
  assume h: "silenceTimer s = None \<and> mediaRecorder s = Some Recording \<and> 0 < silenceDuration s \<and>
    js_less (rms d) (silenceThreshold s) \<and> frames_below (silenceThreshold s) es \<and>
    silenceDuration s \<le> total_wait es"
  with assms show "vad_run (Frame d # es) (now, s) = (now + total_wait es, stopRecording s)"
    by (intro silence_then_stop) simp_all
  from assms h show "stops (stopRecording s) = stops s + 1"
    by (intro stopRecording_effect) simp_all
  from assms h show "\<not> isRecording (stopRecording s)"
    by (intro stopRecording_effect) simp_all
next
  assume "silenceTimer s = None \<and>
    js_less (rms d) (silenceThreshold s) \<and> frames_below (silenceThreshold s) es \<and>
    total_wait es < silenceDuration s \<and>
    \<not> js_less (rms loud) (silenceThreshold s) \<and> frames_above (silenceThreshold s) es'"
  with assms show "vad_run (Frame d # es @ Frame loud # es') (now, s) =
      (now + total_wait es + total_wait es', s)"
    by (intro silence_interrupted) simp_all
qed

lemma silent_frame_below: "js_less (rms silent_frame) (1 / 100)"
  by (simp add: silent_frame_def rms_def js_less_def normalized_def)

lemma loud_frame_above: "\<not> js_less (rms loud_frame) (1 / 100)"
proof -
  have "rms loud_frame = Some (sqrt ((127 / 128)\<^sup>2))"
    by (simp add: loud_frame_def rms_def normalized_def power2_eq_square)
  then have "rms loud_frame = Some (127 / 128)"
    by simp
  then show ?thesis
    by (simp add: js_less_def)
qed

lemma recording_service_fields:
  "isRecording recording_service" "silenceTimer recording_service = None"
  "mediaRecorder recording_service = Some Recording" "silenceDuration recording_service = 2000"
  "silenceThreshold recording_service = 1 / 100" "stops recording_service = 0"
  by (simp_all add: recording_service_def stops_def)

theorem silence_detection_witness:
  "isRecording recording_service \<and>
   silenceTimer (checkVolume 40 silent_frame recording_service) = Some 2040 \<and>
   silenceTimer (checkVolume 40 loud_frame recording_service) = None \<and>
   stops (snd (vad_run (Frame silent_frame # [Wait 1000, Frame silent_frame, Wait 1000])
     (40, recording_service))) = 1 \<and>
   \<not> isRecording (snd (vad_run (Frame silent_frame # [Wait 1000, Frame silent_frame, Wait 1000])
     (40, recording_service))) \<and>
   stops (snd (vad_run (Frame silent_frame # [Wait 1999] @ Frame loud_frame # [Wait 5000])
     (40, recording_service))) = 0 \<and>
   isRecording (snd (vad_run (Frame silent_frame # [Wait 1999] @ Frame loud_frame # [Wait 5000])
     (40, recording_service)))"
proof -
  note f = recording_service_fields silent_frame_below loud_frame_above
  note long = silence_detection [OF recording_service_fields(1), where d = silent_frame
      and now = 40 and es = "[Wait 1000, Frame silent_frame, Wait 1000]"
      and loud = loud_frame and es' = "[]"]
  note short = silence_detection [OF recording_service_fields(1), where d = loud_frame
      and now = 40 and es = "[Wait 1999]" and loud = loud_frame and es' = "[Wait 5000]"]
  note cut = silence_detection [OF recording_service_fields(1), where d = silent_frame
      and now = 40 and es = "[Wait 1999]" and loud = loud_frame and es' = "[Wait 5000]"]
  have start: "checkVolume 40 silent_frame recording_service =
      recording_service\<lparr>silenceTimer := Some (40 + silenceDuration recording_service)\<rparr>"
    by (rule long [THEN conjunct2, THEN conjunct1, THEN mp]) (simp add: f)
  have cancel: "checkVolume 40 loud_frame recording_service =
      recording_service\<lparr>silenceTimer := None\<rparr>"
    by (rule short [THEN conjunct2, THEN conjunct2, THEN conjunct2, THEN conjunct1, THEN mp])
      (simp add: f)
  have stop: "vad_run (Frame silent_frame # [Wait 1000, Frame silent_frame, Wait 1000])
        (40, recording_service) =
      (40 + total_wait [Wait 1000, Frame silent_frame, Wait 1000], stopRecording recording_service) \<and>
      stops (stopRecording recording_service) = stops recording_service + 1 \<and>
      \<not> isRecording (stopRecording recording_service)"
    by (rule long [THEN conjunct2, THEN conjunct2, THEN conjunct2, THEN conjunct2,
          THEN conjunct1, THEN mp])
      (simp add: f)
  have kept: "vad_run (Frame silent_frame # [Wait 1999] @ Frame loud_frame # [Wait 5000])
        (40, recording_service) =
      (40 + total_wait [Wait 1999] + total_wait [Wait 5000], recording_service)"
    by (rule cut [THEN conjunct2, THEN conjunct2, THEN conjunct2, THEN conjunct2,
          THEN conjunct2, THEN mp])
      (simp add: f)
  show ?thesis
    by (simp only: start cancel stop kept snd_conv) (simp add: f)
qed

subsection \<open>Notifications\<close>

lemma client_updateState:
  "client (updateState chrome now state message s) =
     (case onStateChangeCallback s of
        None \<Rightarrow> client s
      | Some callback \<Rightarrow>
          callback \<lparr>sd_state = state, sd_message = message, sd_timestamp = now\<rparr> (client s))"
  by (simp add: updateState_def Let_def settle_def promise_catch_def
      split: option.splits promise.splits)

lemma unhandled_updateState: "unhandled (updateState chrome now state message s) = unhandled s"
  by (simp add: updateState_def Let_def settle_def promise_catch_def
      split: option.splits promise.splits)

lemma io_updateState:
  "io (updateState chrome now state message s) =
     io s @ (case chrome of
               None \<Rightarrow> []
             | Some sent \<Rightarrow> [SendMessage \<lparr>sd_state = state, sd_message = message, sd_timestamp = now\<rparr>])"
  by (simp add: updateState_def Let_def settle_def promise_catch_def
      split: option.splits promise.splits)

lemma fields_updateState:
  "audioChunks (updateState chrome now state message s) = audioChunks s"
  "onStateChangeCallback (updateState chrome now state message s) = onStateChangeCallback s"
  "onTranscriptionCallback (updateState chrome now state message s) = onTranscriptionCallback s"
  "isRecording (updateState chrome now state message s) = isRecording s"
  "mediaRecorder (updateState chrome now state message s) = mediaRecorder s"
  by (simp_all add: updateState_def Let_def settle_def promise_catch_def
      split: option.splits promise.splits)

text \<open>
  C8. Whether the promise of \<^verbatim>\<open>chrome.runtime.sendMessage\<close> is fulfilled or rejected (no
  listener at the other end), \<^verbatim>\<open>updateState\<close> ends in the same state: no rejection is left
  unhandled, and the state-change callback, when one is registered, has run on the
  notification. The same holds where \<^verbatim>\<open>chrome.runtime\<close> does not exist and nothing is sent.
\<close>

theorem updateState_send_failure_absorbed:
  "updateState (Some (Rejected reason)) now state message s =
     updateState (Some Fulfilled) now state message s \<and>
   unhandled (updateState chrome now state message s) = unhandled s \<and>
   client (updateState chrome now state message s) =
     (case onStateChangeCallback s of
        None \<Rightarrow> client s
      | Some callback \<Rightarrow>
          callback \<lparr>sd_state = state, sd_message = message, sd_timestamp = now\<rparr> (client s))"
  by (simp add: client_updateState unhandled_updateState)
    (simp add: updateState_def Let_def settle_def promise_catch_def)

subsection \<open>One recording at a time\<close>

text \<open>
  The first \<^verbatim>\<open>SpeechService\<close> refuses to start while it records and leaves everything,
  the chunk buffer included, as it is.
\<close>

lemma startRecording_guard:
  "isRecording s \<Longrightarrow>
     startRecording chrome granted setup now dataArray s =
       (\<lparr>success = False, error = Some ''Recording already in progress''\<rparr>, s)"
  by (simp add: startRecording_def)

text \<open>The second one has no such check: it empties the buffer and starts another recorder.\<close>

lemma fields_checkVolume:
  "io (checkVolume now dataArray s) = io s"
  "audioChunks (checkVolume now dataArray s) = audioChunks s"
  "isRecording (checkVolume now dataArray s) = isRecording s"
  "mediaRecorder (checkVolume now dataArray s) = mediaRecorder s"
  by (simp_all add: checkVolume_def)

lemma fields_detectSilence:
  "io (detectSilence now dataArray s) = io s"
  "audioChunks (detectSilence now dataArray s) = audioChunks s"
  "isRecording (detectSilence now dataArray s) = isRecording s"
  "mediaRecorder (detectSilence now dataArray s) = mediaRecorder s"
  by (simp_all add: detectSilence_def fields_checkVolume)

lemma fields_updateState2:
  "io (updateState2 sent now state message s) =
     io s @ [SendMessage \<lparr>sd_state = state, sd_message = message, sd_timestamp = now\<rparr>]"
  "audioChunks (updateState2 sent now state message s) = audioChunks s"
  "isRecording (updateState2 sent now state message s) = isRecording s"
  by (cases sent; cases "onStateChangeCallback s";
      simp add: updateState2_def Let_def settle_def promise_catch_def)+

lemma startRecording2_no_guard:
  "fst (startRecording2 sent Granted now dataArray s) = \<lparr>success = True, error = None\<rparr>"
  "audioChunks (snd (startRecording2 sent Granted now dataArray s)) = []"
  "isRecording (snd (startRecording2 sent Granted now dataArray s))"
  "mediaRecorder (snd (startRecording2 sent Granted now dataArray s)) = Some Recording"
  "io (snd (startRecording2 sent Granted now dataArray s)) =
     io s @ [GetUserMedia,
       SendMessage \<lparr>sd_state = ''recording'', sd_message = Some ''Listening...'', sd_timestamp = now\<rparr>,
       RecorderStart]"
  by (simp_all add: startRecording2_def Let_def fields_detectSilence fields_updateState2)

text \<open>
  C4 on the second \<^verbatim>\<open>SpeechService\<close>: after one successful \<^verbatim>\<open>startRecording\<close> the service
  records; a second call succeeds too, and two recorders have been started and none
  stopped.
\<close>

theorem startRecording2_second_recording:
  "isRecording first_recording \<and>
   mediaRecorder first_recording = Some Recording \<and>
   fst (startRecording2 Fulfilled Granted 500 loud_frame first_recording) =
     \<lparr>success = True, error = None\<rparr> \<and>
   filter (\<lambda>e. e = RecorderStart \<or> e = RecorderStop)
       (io (snd (startRecording2 Fulfilled Granted 500 loud_frame first_recording))) =
     [RecorderStart, RecorderStart]"
  by (simp add: first_recording_def startRecording2_no_guard service_constructor_def)

subsection \<open>Failures while processing\<close>

lemma alerts_append: "alerts (es @ es') = alerts es @ alerts es'"
  by (induction es rule: alerts.induct) simp_all

lemma sent_audio_append: "sent_audio (es @ es') = sent_audio es @ sent_audio es'"
  by (induction es rule: sent_audio.induct) simp_all

lemma sent_audio_updateState:
  "sent_audio (io (updateState chrome now state message s)) = sent_audio (io s)"
  by (cases chrome) (simp_all add: io_updateState sent_audio_append)

lemma alerts_setState: "alerts (ui (setState t s)) = alerts (ui s)"
  by (simp add: setState_def Let_def handleStateChange_def updateUI_def alerts_append
      split: ui_state.splits)

text \<open>What the popup controller does with the notifications \<^verbatim>\<open>'processing'\<close> and \<^verbatim>\<open>'error'\<close>.\<close>

lemma handler_processing:
  assumes "sd_state stateData = ''processing''"
  shows "conversationHistory (onStateChange_handler stateData c) = conversationHistory c"
    and "alerts (ui (onStateChange_handler stateData c)) = alerts (ui c)"
  using assms
  by (simp_all add: onStateChange_handler_def conversationHistory_setState alerts_setState
      waveformVisualizer_stop_def alerts_append)

lemma handler_error:
  assumes "sd_state stateData = ''error''"
  shows "currentState (onStateChange_handler stateData c) = IDLE"
    and "conversationHistory (onStateChange_handler stateData c) = conversationHistory c"
    and "alerts (ui (onStateChange_handler stateData c)) =
      alerts (ui c) @ [js_or (sd_message stateData) ''An error occurred during speech recognition.'']"
  using assms
  by (simp_all add: onStateChange_handler_def conversationHistory_setState alerts_setState
      currentState_setState waveformVisualizer_stop_def alert_def alerts_append)

lemma transcribeAudio_fails:
  assumes "call_fails response"
  shows "\<exists>reason. transcribeAudio response audioFile s =
           (Inl reason, s\<lparr>io := io s @ [FetchTranscribe audioFile]\<rparr>)"
  using assms
  by (auto simp: call_fails_def transcribeAudio_def Let_def
      split: fetch_result.splits sum.splits if_splits)

text \<open>
  C5. The popup controller is registered for the notifications and the recording is long
  enough to be sent. If the transcription call fails, \<^verbatim>\<open>processAudio\<close> ends with the error,
  the controller is in \<^verbatim>\<open>IDLE\<close>, its history is what it was, and exactly one more \<^verbatim>\<open>alert\<close>
  has been shown, with the message of the error (or the stock message if that is empty).
\<close>

theorem transcription_failure:
  assumes "onStateChangeCallback s = Some onStateChange_handler"
    and "1000 \<le> length (concat (audioChunks s))"
    and "call_fails response"
  shows "\<exists>reason.
           fst (processAudio chrome storage response now later s) = Inl reason \<and>
           currentState (client (snd (processAudio chrome storage response now later s))) = IDLE \<and>
           conversationHistory (client (snd (processAudio chrome storage response now later s))) =
             conversationHistory (client s) \<and>
           alerts (ui (client (snd (processAudio chrome storage response now later s)))) =
             alerts (ui (client s)) @
               [js_or (Some reason) ''An error occurred during speech recognition.'']"
proof -
  let ?s1 = "updateState chrome now ''processing'' (Some ''Processing your speech...'') s"
  let ?blob = "concat (audioChunks ?s1)"
  obtain reason where t: "transcribeAudio response ?blob ?s1 =
      (Inl reason, ?s1\<lparr>io := io ?s1 @ [FetchTranscribe ?blob]\<rparr>)"
    using transcribeAudio_fails [OF assms(3)] by blast
  let ?s2 = "?s1\<lparr>io := io ?s1 @ [FetchTranscribe ?blob]\<rparr>"
  let ?s3 = "updateState chrome later ''error'' (Some reason) ?s2"
  have long: "\<not> length ?blob < 1000"
    using assms(2) by (simp add: fields_updateState)
  have result: "processAudio chrome storage response now later s = (Inl reason, ?s3)"
    using long t by (simp add: processAudio_def Let_def)
  have c1: "client ?s1 = onStateChange_handler
      \<lparr>sd_state = ''processing'', sd_message = Some ''Processing your speech...'', sd_timestamp = now\<rparr>
      (client s)"
    using assms(1) by (simp add: client_updateState)
  have "onStateChangeCallback ?s2 = Some onStateChange_handler"
    using assms(1) by (simp add: fields_updateState)
  then have c3: "client ?s3 = onStateChange_handler
      \<lparr>sd_state = ''error'', sd_message = Some reason, sd_timestamp = later\<rparr> (client ?s1)"
    by (simp add: client_updateState)
  have "currentState (client ?s3) = IDLE"
    by (simp add: c3 handler_error)
  moreover have "conversationHistory (client ?s3) = conversationHistory (client s)"
    by (simp add: c3 c1 handler_error handler_processing)
  moreover have "alerts (ui (client ?s3)) =
      alerts (ui (client s)) @ [js_or (Some reason) ''An error occurred during speech recognition.'']"
    by (simp add: c3 c1 handler_error handler_processing)
  ultimately show ?thesis
    using result by simp
qed

lemma client_detectSilence: "client (detectSilence now dataArray s) = client s"
  by (simp add: detectSilence_def checkVolume_def)

lemma fields_stopRecording:
  "client (stopRecording s) = client s" "audioChunks (stopRecording s) = audioChunks s"
  by (simp_all add: stopRecording_def Let_def split: option.splits recorder_state.splits)

lemma started_fields:
  "currentState (client started) = LISTENING" "alerts (ui (client started)) = []"
  "audioChunks started = []" "isRecording started" "mediaRecorder started = Some Recording"
  by (simp_all add: started_def startRecording_def init_def service_constructor_def
      constructor_def Let_def client_detectSilence fields_detectSilence client_updateState
      fields_updateState onStateChange_handler_def setState_def updateUI_def
      handleStateChange_def)

text \<open>
  C6, as the code has it. The popup controller is registered for the notifications, and
  at least one chunk was captured before the recorder stopped. If the chunks add up to
  fewer than 1000 bytes, \<^verbatim>\<open>processAudio\<close> ends with the error ``Recording too short'',
  whatever the transcription service would have answered. When the recorder's \<^verbatim>\<open>onstop\<close>
  handler has run, exactly one more \<^verbatim>\<open>alert\<close> has been shown, with that message, the
  controller is in \<^verbatim>\<open>IDLE\<close> with its history as it was, no audio has been handed to a
  transcription request, and the error has ended as an unhandled rejection of the handler:
  nothing tries again.
\<close>

theorem recording_too_short:
  assumes "onStateChangeCallback s = Some onStateChange_handler"
    and "audioChunks s \<noteq> []"
    and "length (concat (audioChunks s)) < 1000"
  shows "fst (processAudio chrome storage response now later s) = Inl too_short \<and>
         sent_audio (io (onstop chrome storage response now later s)) = sent_audio (io s) \<and>
         alerts (ui (client (onstop chrome storage response now later s))) =
           alerts (ui (client s)) @ [too_short] \<and>
         currentState (client (onstop chrome storage response now later s)) = IDLE \<and>
         conversationHistory (client (onstop chrome storage response now later s)) =
           conversationHistory (client s) \<and>
         unhandled (onstop chrome storage response now later s) = unhandled s @ [too_short]"
proof -
  let ?s1 = "updateState chrome now ''processing'' (Some ''Processing your speech...'') s"
  let ?s2 = "updateState chrome now ''error'' (Some too_short) ?s1"
  have result: "processAudio chrome storage response now later s = (Inl too_short, ?s2)"
    using assms(3) by (simp add: processAudio_def Let_def fields_updateState)
  have stop: "onstop chrome storage response now later s =
      ?s2\<lparr>unhandled := unhandled ?s2 @ [too_short]\<rparr>"
    using assms(2) result by (simp add: onstop_def)
  have c1: "client ?s1 = onStateChange_handler
      \<lparr>sd_state = ''processing'', sd_message = Some ''Processing your speech...'', sd_timestamp = now\<rparr>
      (client s)"
    using assms(1) by (simp add: client_updateState)
  have c2: "client ?s2 = onStateChange_handler
      \<lparr>sd_state = ''error'', sd_message = Some too_short, sd_timestamp = now\<rparr> (client ?s1)"
    using assms(1) by (simp add: client_updateState fields_updateState)
  have "sent_audio (io ?s2) = sent_audio (io s)"
    by (simp add: sent_audio_updateState)
  moreover have "alerts (ui (client ?s2)) = alerts (ui (client s)) @ [too_short]"
    by (simp add: c2 c1 handler_error handler_processing) (simp add: js_or_def too_short_def)
  moreover have "currentState (client ?s2) = IDLE"
    by (simp add: c2 handler_error)
  moreover have "conversationHistory (client ?s2) = conversationHistory (client s)"
    by (simp add: c2 c1 handler_error handler_processing)
  moreover have "unhandled ?s2 = unhandled s"
    by (simp add: unhandled_updateState)
  ultimately show ?thesis
    using result stop by simp
qed

text \<open>
  C6 as stated fails for a recording of which no chunk was captured. Its payload has size
  0, below the threshold, but \<^verbatim>\<open>onstop\<close> calls \<^verbatim>\<open>processAudio\<close> only
  \<^verbatim>\<open>if (this.audioChunks.length > 0)\<close>: no error is raised, no \<^verbatim>\<open>alert\<close> is shown, and the
  controller stays in \<^verbatim>\<open>LISTENING\<close>.
\<close>

theorem recording_too_short_counterexample:
  "currentState (client stopped_empty) = LISTENING \<and>
   \<not> isRecording stopped_empty \<and>
   length (concat (audioChunks stopped_empty)) < 1000 \<and>
   alerts (ui (client (onstop None False refusal 10 20 stopped_empty))) = [] \<and>
   currentState (client (onstop None False refusal 10 20 stopped_empty)) = LISTENING \<and>
   unhandled (onstop None False refusal 10 20 stopped_empty) = unhandled stopped_empty"
  by (simp add: stopped_empty_def ondataavailable_def onstop_def fields_stopRecording
      started_fields stopRecording_stopped)

lemma recorded_fields:
  "onStateChangeCallback (recorded chunk) = Some onStateChange_handler"
  "audioChunks (recorded chunk) = [chunk]"
  "conversationHistory (client (recorded chunk)) = []"
  "alerts (ui (client (recorded chunk))) = []"
  "sent_audio (io (recorded chunk)) = []"
  by (simp_all add: recorded_def init_def constructor_def)

theorem transcription_failure_witness:
  "onStateChangeCallback (recorded (replicate 1000 0)) = Some onStateChange_handler \<and>
   1000 \<le> length (concat (audioChunks (recorded (replicate 1000 0)))) \<and>
   call_fails refusal \<and>
   currentState (client (snd (processAudio None False refusal 10 20 (recorded (replicate 1000 0))))) = IDLE \<and>
   conversationHistory (client (snd (processAudio None False refusal 10 20 (recorded (replicate 1000 0))))) = [] \<and>
   length (alerts (ui (client (snd (processAudio None False refusal 10 20 (recorded (replicate 1000 0))))))) = 1"
proof -
  have h: "onStateChangeCallback (recorded (replicate 1000 0)) = Some onStateChange_handler"
    "1000 \<le> length (concat (audioChunks (recorded (replicate 1000 0))))"
    "call_fails refusal"
    by (simp_all add: recorded_fields refusal_def call_fails_def)
  from transcription_failure [OF h, of None False 10 20] h show ?thesis
    by (auto simp: recorded_fields)
qed

theorem recording_too_short_witness:
  "onStateChangeCallback (recorded [1, 2, 3]) = Some onStateChange_handler \<and>
   audioChunks (recorded [1, 2, 3]) \<noteq> [] \<and>
   length (concat (audioChunks (recorded [1, 2, 3]))) < 1000 \<and>
   fst (processAudio None False refusal 10 20 (recorded [1, 2, 3])) = Inl too_short \<and>
   sent_audio (io (onstop None False refusal 10 20 (recorded [1, 2, 3]))) = [] \<and>
   alerts (ui (client (onstop None False refusal 10 20 (recorded [1, 2, 3])))) = [too_short] \<and>
   currentState (client (onstop None False refusal 10 20 (recorded [1, 2, 3]))) = IDLE \<and>
   unhandled (onstop None False refusal 10 20 (recorded [1, 2, 3])) = [too_short]"
proof -
  have h: "onStateChangeCallback (recorded [1, 2, 3]) = Some onStateChange_handler"
    "audioChunks (recorded [1, 2, 3]) \<noteq> []"
    "length (concat (audioChunks (recorded [1, 2, 3]))) < 1000"
    by (simp_all add: recorded_fields)
  have u: "unhandled (recorded [1, 2, 3]) = []"
    by (simp add: recorded_def init_def)
  from recording_too_short [OF h, of None False refusal 10 20] h u show ?thesis
    by (simp add: recorded_fields)
qed

end
